theory Spec2Isabelle
  imports Main
begin

section \<open>The two variants of the web server\<close>

text \<open>
  The repository holds the web server twice: \<^verbatim>\<open>src/unnamed/part_000\<close> and the last
  document of \<^verbatim>\<open>src/cmd/runner/main.go\<close>. The two differ in the playbook skeleton, in
  \<^verbatim>\<open>updateTask\<close>, in the success branch of the worker and in \<^verbatim>\<open>runAnsiblePlaybook\<close>.
  Every function that differs takes the variant as its first argument.
\<close>

datatype variant = Part000 | RunnerMain

section \<open>Strings and buffers\<close>

definition NL :: char where
  "NL = CHR 0x0A"

definition CR :: char where
  "CR = CHR 0x0D"

text \<open>\<^verbatim>\<open>strings.ReplaceAll(s, old, new)\<close> for a one-byte \<^verbatim>\<open>old\<close>.\<close>

definition strings_ReplaceAll :: "string \<Rightarrow> char \<Rightarrow> string \<Rightarrow> string" where
  "strings_ReplaceAll s old new = concat (map (\<lambda>x. if x = old then new else [x]) s)"

text \<open>
  \<^verbatim>\<open>strings.Split(s, sep)\<close> for a one-byte \<^verbatim>\<open>sep\<close>: the pieces between the
  separators, one more piece than there are separators (the empty string gives one
  empty piece).
\<close>

primrec strings_Split :: "string \<Rightarrow> char \<Rightarrow> string list" where
  "strings_Split [] sep = [[]]"
| "strings_Split (x # xs) sep =
     (if x = sep then [] # strings_Split xs sep
      else (case strings_Split xs sep of
              [] \<Rightarrow> [[x]]
            | l # ls \<Rightarrow> (x # l) # ls))"

text \<open>\<^verbatim>\<open>strings.Join(pieces, sep)\<close> for a one-byte \<^verbatim>\<open>sep\<close>; used to state what
  \<^verbatim>\<open>strings.Split\<close> returns.\<close>

primrec strings_Join :: "string list \<Rightarrow> char \<Rightarrow> string" where
  "strings_Join [] sep = []"
| "strings_Join (l # ls) sep = (case ls of [] \<Rightarrow> l | _ # _ \<Rightarrow> l @ sep # strings_Join ls sep)"

text \<open>A \<^verbatim>\<open>bytes.Buffer\<close> is the bytes written so far.\<close>

type_synonym Buffer = string

definition WriteString :: "Buffer \<Rightarrow> string \<Rightarrow> Buffer" where
  "WriteString w s = w @ s"

definition Reset :: "Buffer \<Rightarrow> Buffer" where
  "Reset w = []"

definition Buffer_String :: "Buffer \<Rightarrow> string" where
  "Buffer_String w = w"

section \<open>Files\<close>

type_synonym path = string

text \<open>
  \<^verbatim>\<open>filepath.Join\<close> and \<^verbatim>\<open>filepath.Dir\<close> on components that are already clean (no
  empty component, no dot component): the components separated by a slash, and the path
  without its last component.
\<close>

primrec filepath_Join :: "string list \<Rightarrow> path" where
  "filepath_Join [] = []"
| "filepath_Join (p # ps) = (case ps of [] \<Rightarrow> p | _ # _ \<Rightarrow> p @ CHR ''/'' # filepath_Join ps)"

definition filepath_Dir :: "path \<Rightarrow> path" where
  "filepath_Dir p = rev (drop 1 (dropWhile (\<lambda>c. c \<noteq> CHR ''/'') (rev p)))"

record filesystem =
  files :: "path \<rightharpoonup> string"
  dirs :: "path set"

text \<open>
  What the operating system answers to one file write: whether \<^verbatim>\<open>os.MkdirAll\<close> creates
  the directory, the error of opening the file for writing, and the error of the write
  with the number of bytes that reached the file before it.
\<close>

record io_env =
  mkdir_ok :: bool
  create_err :: "string option"
  write_err :: "(nat \<times> string) option"

text \<open>
  \<^verbatim>\<open>writeFile(path, content)\<close>: the parent directory is created when it is absent
  (the result of \<^verbatim>\<open>os.MkdirAll\<close> is not looked at), \<^verbatim>\<open>os.Create\<close> truncates or creates
  the file, \<^verbatim>\<open>f.WriteString\<close> writes the content. The first error is returned.
\<close>

definition writeFile :: "io_env \<Rightarrow> path \<Rightarrow> string \<Rightarrow> filesystem \<Rightarrow> string option \<times> filesystem" where
  "writeFile e p content fs =
     (let parentDir = filepath_Dir p;
          fs1 = (if parentDir \<notin> dirs fs \<and> mkdir_ok e
                 then fs\<lparr>dirs := insert parentDir (dirs fs)\<rparr> else fs)
      in if parentDir \<notin> dirs fs1 then (Some ''no such file or directory'', fs1)
         else (case create_err e of
                 Some m \<Rightarrow> (Some m, fs1)
               | None \<Rightarrow>
                   (case write_err e of
                      Some (n, m) \<Rightarrow> (Some m, fs1\<lparr>files := (files fs1)(p \<mapsto> take n content)\<rparr>)
                    | None \<Rightarrow> (None, fs1\<lparr>files := (files fs1)(p \<mapsto> content)\<rparr>))))"

text \<open>
  \<^verbatim>\<open>os.WriteFile(name, data, 0644)\<close>: open with create and truncate, write, close. It
  creates no directory.
\<close>

definition os_WriteFile :: "io_env \<Rightarrow> path \<Rightarrow> string \<Rightarrow> filesystem \<Rightarrow> string option \<times> filesystem" where
  "os_WriteFile e p content fs =
     (if filepath_Dir p \<notin> dirs fs then (Some ''no such file or directory'', fs)
      else (case create_err e of
              Some m \<Rightarrow> (Some m, fs)
            | None \<Rightarrow>
                (case write_err e of
                   Some (n, m) \<Rightarrow> (Some m, fs\<lparr>files := (files fs)(p \<mapsto> take n content)\<rparr>)
                 | None \<Rightarrow> (None, fs\<lparr>files := (files fs)(p \<mapsto> content)\<rparr>))))"

section \<open>Rows and the database\<close>

text \<open>
  The four row types of the source. The \<^verbatim>\<open>uint\<close> columns are natural numbers (no
  arithmetic is done on them but the next primary key), a \<^verbatim>\<open>time.Time\<close> is a natural
  number with 0 for the zero time.
\<close>

record User =
  user_ID :: nat
  user_Name :: string
  user_Password :: string

record Inventory =
  inv_ID :: nat
  inv_Name :: string
  inv_Path :: string
  inv_Creator :: string

record Playbook =
  pb_ID :: nat
  pb_Name :: string
  pb_Path :: string
  pb_Creator :: string

record Task =
  ID :: nat
  TaskID :: string
  Name :: string
  Status :: nat
  UpdatedAt :: nat
  PlaybookID :: nat
  Playbook :: Playbook
  InventoryID :: nat
  Inventory :: Inventory
  UserID :: nat
  User :: User
  Error :: string

definition zero_User :: User where
  "zero_User = \<lparr>user_ID = 0, user_Name = [], user_Password = []\<rparr>"

definition zero_Inventory :: Inventory where
  "zero_Inventory = \<lparr>inv_ID = 0, inv_Name = [], inv_Path = [], inv_Creator = []\<rparr>"

definition zero_Playbook :: Playbook where
  "zero_Playbook = \<lparr>pb_ID = 0, pb_Name = [], pb_Path = [], pb_Creator = []\<rparr>"

definition zero_Task :: Task where
  "zero_Task = \<lparr>ID = 0, TaskID = [], Name = [], Status = 0, UpdatedAt = 0,
     PlaybookID = 0, Playbook = zero_Playbook, InventoryID = 0, Inventory = zero_Inventory,
     UserID = 0, User = zero_User, Error = []\<rparr>"

text \<open>The tables. The association fields of a stored task row are not columns.\<close>

record database =
  users :: "User list"
  inventories :: "Inventory list"
  playbooks :: "Playbook list"
  tasks :: "Task list"

text \<open>The primary key an insert gives a row whose \<^verbatim>\<open>ID\<close> is zero.\<close>

definition next_ID :: "nat list \<Rightarrow> nat" where
  "next_ID ids = Suc (fold max ids 0)"

text \<open>
  \<^verbatim>\<open>db.Create(&row).Error\<close>, one function per table: the database may refuse (the
  error is the environment's), otherwise the row is stored under a fresh primary key,
  which is written back into the caller's struct.
\<close>

definition Create_Playbook :: "string option \<Rightarrow> Playbook \<Rightarrow> database \<Rightarrow> string + Playbook \<times> database" where
  "Create_Playbook err row d =
     (case err of
        Some m \<Rightarrow> Inl m
      | None \<Rightarrow>
          (let row' = row\<lparr>pb_ID := next_ID (map pb_ID (playbooks d))\<rparr>
           in Inr (row', d\<lparr>playbooks := playbooks d @ [row']\<rparr>)))"

definition Create_Inventory :: "string option \<Rightarrow> Inventory \<Rightarrow> database \<Rightarrow> string + Inventory \<times> database" where
  "Create_Inventory err row d =
     (case err of
        Some m \<Rightarrow> Inl m
      | None \<Rightarrow>
          (let row' = row\<lparr>inv_ID := next_ID (map inv_ID (inventories d))\<rparr>
           in Inr (row', d\<lparr>inventories := inventories d @ [row']\<rparr>)))"

definition Create_Task :: "string option \<Rightarrow> nat \<Rightarrow> Task \<Rightarrow> database \<Rightarrow> string + Task \<times> database" where
  "Create_Task err now row d =
     (case err of
        Some m \<Rightarrow> Inl m
      | None \<Rightarrow>
          (let row' = row\<lparr>ID := next_ID (map ID (tasks d)), UpdatedAt := now\<rparr>
           in Inr (row', d\<lparr>tasks := tasks d @ [row']\<rparr>)))"

text \<open>
  \<^verbatim>\<open>db.Where(cond).Updates(Task{...})\<close>. The ORM builds the assignment list from a
  struct argument by leaving out every field that holds its zero value, so a zero
  status, an empty string and a zero key are not written; the rows that satisfy the
  condition get the remaining fields. The update time is the exception: the ORM stamps
  that column on every update, and every caller passes \<^verbatim>\<open>time.Now()\<close> for it. Both
  callers pass a struct whose primary key is zero and whose associations are zero, so
  these are not assigned here.
\<close>

definition assign_nonzero :: "Task \<Rightarrow> Task \<Rightarrow> Task" where
  "assign_nonzero v r =
     r\<lparr>TaskID := (if TaskID v = [] then TaskID r else TaskID v),
       Name := (if Name v = [] then Name r else Name v),
       Status := (if Status v = 0 then Status r else Status v),
       UpdatedAt := UpdatedAt v,
       PlaybookID := (if PlaybookID v = 0 then PlaybookID r else PlaybookID v),
       InventoryID := (if InventoryID v = 0 then InventoryID r else InventoryID v),
       UserID := (if UserID v = 0 then UserID r else UserID v),
       Error := (if Error v = [] then Error r else Error v)\<rparr>"

definition Updates :: "string option \<Rightarrow> (Task \<Rightarrow> bool) \<Rightarrow> Task \<Rightarrow> database \<Rightarrow> string + database" where
  "Updates err cond v d =
     (case err of
        Some m \<Rightarrow> Inl m
      | None \<Rightarrow> Inr (d\<lparr>tasks := map (\<lambda>r. if cond r then assign_nonzero v r else r) (tasks d)\<rparr>))"

text \<open>
  \<^verbatim>\<open>db.Preload("Playbook").Preload("Inventory").Preload("User").First(&task, "task_id = ?", taskId)\<close>:
  of the rows with this task identifier the one with the least primary key, its
  associations loaded by their keys; the record-not-found error when there is none,
  the environment's error when the database fails.
\<close>

primrec least_ID :: "Task list \<Rightarrow> Task option" where
  "least_ID [] = None"
| "least_ID (t # ts) =
     (case least_ID ts of
        None \<Rightarrow> Some t
      | Some u \<Rightarrow> if ID t \<le> ID u then Some t else Some u)"

definition Preload :: "database \<Rightarrow> Task \<Rightarrow> Task" where
  "Preload d t =
     t\<lparr>Playbook := (case find (\<lambda>p. pb_ID p = PlaybookID t) (playbooks d) of
                      Some p \<Rightarrow> p | None \<Rightarrow> zero_Playbook),
       Inventory := (case find (\<lambda>i. inv_ID i = InventoryID t) (inventories d) of
                       Some i \<Rightarrow> i | None \<Rightarrow> zero_Inventory),
       User := (case find (\<lambda>u. user_ID u = UserID t) (users d) of
                  Some u \<Rightarrow> u | None \<Rightarrow> zero_User)\<rparr>"

definition First :: "string option \<Rightarrow> string \<Rightarrow> database \<Rightarrow> string + Task" where
  "First err taskId d =
     (case err of
        Some m \<Rightarrow> Inl m
      | None \<Rightarrow>
          (case least_ID (filter (\<lambda>t. TaskID t = taskId) (tasks d)) of
             None \<Rightarrow> Inl ''record not found''
           | Some t \<Rightarrow> Inr (Preload d t)))"

section \<open>The request context\<close>

text \<open>
  Of a \<^verbatim>\<open>gin.Context\<close>: the status code once the header is written, the errors attached
  to the request, whether the request is aborted, and the task rendered into the body.
  \<^verbatim>\<open>AbortWithError\<close> writes the header at once; a later \<^verbatim>\<open>IndentedJSON\<close> cannot change a
  written status but still writes the body.
\<close>

record gin_Context =
  written :: "nat option"
  errors :: "string list"
  aborted :: bool
  body :: "Task option"

definition new_Context :: gin_Context where
  "new_Context = \<lparr>written = None, errors = [], aborted = False, body = None\<rparr>"

definition AbortWithError :: "nat \<Rightarrow> string \<Rightarrow> gin_Context \<Rightarrow> gin_Context" where
  "AbortWithError code m c =
     c\<lparr>written := (case written c of None \<Rightarrow> Some code | Some s \<Rightarrow> Some s),
       errors := errors c @ [m],
       aborted := True\<rparr>"

definition IndentedJSON :: "nat \<Rightarrow> Task \<Rightarrow> gin_Context \<Rightarrow> gin_Context" where
  "IndentedJSON code obj c =
     c\<lparr>written := (case written c of None \<Rightarrow> Some code | Some s \<Rightarrow> Some s),
       body := Some obj\<rparr>"

section \<open>The state of the server\<close>

text \<open>What the worker and the handlers print, as records rather than formatted lines.\<close>

datatype log_line =
  ErrTask string string
| ErrUpdate Task string
| CmdLine string
| FailedExec string string
| FailedWrite string
| ServiceStopped nat

record world =
  db :: database
  fs :: filesystem
  logs :: "log_line list"

section \<open>Task creation\<close>

record form =
  form_name :: string
  form_playbook :: string
  form_inventory :: string

record create_env =
  new_uuid :: string
  playbook_io :: io_env
  playbook_db_err :: "string option"
  inventory_io :: io_env
  inventory_db_err :: "string option"
  task_db_err :: "string option"
  create_now :: nat

text \<open>
  The buffer \<^verbatim>\<open>createTask\<close> fills for the playbook: the skeleton (with the
  \<^verbatim>\<open>gather_facts\<close> line in \<^verbatim>\<open>src/cmd/runner/main.go\<close> only), then one write per line of
  the body without its carriage returns.
\<close>

definition playbook_skeleton :: "variant \<Rightarrow> Buffer \<Rightarrow> Buffer" where
  "playbook_skeleton v w =
     (case v of
        Part000 \<Rightarrow>
          WriteString (WriteString w (''- hosts: servers'' @ [NL])) (''  tasks:'' @ [NL])
      | RunnerMain \<Rightarrow>
          WriteString
            (WriteString (WriteString w (''- hosts: servers'' @ [NL]))
               (''  gather_facts: false'' @ [NL]))
            (''  tasks:'' @ [NL]))"

definition playbook_buffer :: "variant \<Rightarrow> string \<Rightarrow> Buffer" where
  "playbook_buffer v playbookContent =
     (let w = playbook_skeleton v [];
          playbookContent' = strings_ReplaceAll playbookContent CR []
      in fold (\<lambda>l w. WriteString w (''  '' @ l @ [NL])) (strings_Split playbookContent' NL) w)"

definition inventory_buffer :: "Buffer \<Rightarrow> string \<Rightarrow> Buffer" where
  "inventory_buffer w inventoryContent =
     WriteString (WriteString (Reset w) (''[servers]'' @ [NL])) inventoryContent"

text \<open>
  \<^verbatim>\<open>createTask\<close>. Every \<^verbatim>\<open>return\<close> of the source ends the function here; the branch
  of the failed inventory write has none and goes on.
\<close>

definition createTask ::
  "variant \<Rightarrow> path \<Rightarrow> create_env \<Rightarrow> form \<Rightarrow> gin_Context \<Rightarrow> world \<Rightarrow> gin_Context \<times> world" where
  "createTask v rootDir e f c w =
     (let taskName = form_name f;
          taskID = new_uuid e;
          buf = playbook_buffer v (form_playbook f);
          playbookPath = filepath_Join [rootDir, taskID, ''site.yaml''];
          (err1, fs1) = writeFile (playbook_io e) playbookPath (Buffer_String buf) (fs w)
      in case err1 of
           Some m \<Rightarrow> (AbortWithError 400 m c, w\<lparr>fs := fs1\<rparr>)
         | None \<Rightarrow>
             (case Create_Playbook (playbook_db_err e)
                     \<lparr>pb_ID = 0, pb_Name = taskName, pb_Path = playbookPath, pb_Creator = ''admin''\<rparr>
                     (db w) of
                Inl m \<Rightarrow> (AbortWithError 400 m c, w\<lparr>fs := fs1\<rparr>)
              | Inr (playbook, db1) \<Rightarrow>
                  (let buf2 = inventory_buffer buf (form_inventory f);
                       inventoryPath = filepath_Join [rootDir, taskID, ''inventory.ini''];
                       (err2, fs2) = writeFile (inventory_io e) inventoryPath (Buffer_String buf2) fs1;
                       c2 = (case err2 of Some m \<Rightarrow> AbortWithError 400 m c | None \<Rightarrow> c)
                   in case Create_Inventory (inventory_db_err e)
                             \<lparr>inv_ID = 0, inv_Name = taskName, inv_Path = inventoryPath,
                              inv_Creator = ''admin''\<rparr>
                             db1 of
                        Inl m \<Rightarrow> (AbortWithError 400 m c2, w\<lparr>fs := fs2, db := db1\<rparr>)
                      | Inr (inventory, db2) \<Rightarrow>
                          (case Create_Task (task_db_err e) (create_now e)
                                  (zero_Task\<lparr>TaskID := taskID, Name := taskName, Status := 0,
                                     PlaybookID := pb_ID playbook,
                                     InventoryID := inv_ID inventory, UserID := 1\<rparr>)
                                  db2 of
                             Inl m \<Rightarrow> (AbortWithError 400 m c2, w\<lparr>fs := fs2, db := db2\<rparr>)
                           | Inr (task, db3) \<Rightarrow>
                               (IndentedJSON 200 task c2, w\<lparr>fs := fs2, db := db3\<rparr>)))))"

section \<open>Running the playbook\<close>

text \<open>A \<^verbatim>\<open>time.Duration\<close> counts nanoseconds.\<close>

definition Minute :: nat where
  "Minute = 60 * 1000000000"

definition timeout :: "variant \<Rightarrow> nat" where
  "timeout v = (case v of Part000 \<Rightarrow> 30 * Minute | RunnerMain \<Rightarrow> 10 * Minute)"

text \<open>
  The external process, as the environment gives it: the time it needs to end by
  itself, its exit status, what it has written to its standard output when it ends or
  is killed, and the same with its standard error interleaved (what one writer behind
  both streams receives).
\<close>

record process =
  duration :: nat
  exit_code :: nat
  stdout :: string
  merged :: string

datatype exec_error = DeadlineExceeded | ExitError nat

text \<open>
  \<^verbatim>\<open>exec.Execute(ctx)\<close> under a context with a deadline: the process is killed when it
  runs longer than the deadline allows, and a process that is killed or exits with a
  status other than zero is an error.
\<close>

definition Execute :: "nat \<Rightarrow> process \<Rightarrow> exec_error option" where
  "Execute deadline p =
     (if deadline < duration p then Some DeadlineExceeded
      else if exit_code p \<noteq> 0 then Some (ExitError (exit_code p))
      else None)"

text \<open>
  What one run meets outside the program: the process started for a playbook path and
  an inventory path, the text of the executor's errors, the parser of the JSON stream
  and the marshaller of its result (both of the libraries, \<open>Inl\<close> their error), the error
  of \<^verbatim>\<open>io.ReadAll\<close>, and the outcome of writing the result file.
\<close>

record run_env =
  ansible :: "path \<Rightarrow> path \<Rightarrow> process"
  error_text :: "exec_error \<Rightarrow> string"
  ParseJSONResultsStream :: "string \<Rightarrow> string + string"
  MarshalIndent :: "string \<Rightarrow> string + string"
  readall_err :: "string option"
  result_io :: io_env

text \<open>
  \<^verbatim>\<open>runAnsiblePlaybook\<close> of \<^verbatim>\<open>src/unnamed/part_000\<close>: both streams are captured, an
  error of the executor is printed and nothing else, the captured bytes are written to
  \<^verbatim>\<open>result.json\<close>, an error of that write is printed, and the function returns an error
  only when reading the buffer fails.
\<close>

definition runAnsiblePlaybook_part000 ::
  "path \<Rightarrow> run_env \<Rightarrow> Task \<Rightarrow> world \<Rightarrow> string option \<times> world" where
  "runAnsiblePlaybook_part000 rootDir e task w =
     (let p = ansible e (pb_Path (Playbook task)) (inv_Path (Inventory task));
          w1 = w\<lparr>logs := logs w @ [CmdLine (TaskID task)]\<rparr>;
          w2 = (case Execute (timeout Part000) p of
                  Some err \<Rightarrow> w1\<lparr>logs := logs w1 @ [FailedExec (TaskID task) (error_text e err)]\<rparr>
                | None \<Rightarrow> w1);
          buff = merged p
      in case readall_err e of
           Some m \<Rightarrow> (Some (''failed to read result: '' @ m), w2)
         | None \<Rightarrow>
             (let raw = buff;
                  resultPath = filepath_Join [rootDir, TaskID task, ''result.json''];
                  (werr, fs') = os_WriteFile (result_io e) resultPath raw (fs w2)
              in (None,
                  (case werr of
                     Some m \<Rightarrow> w2\<lparr>fs := fs', logs := logs w2 @ [FailedWrite m]\<rparr>
                   | None \<Rightarrow> w2\<lparr>fs := fs'\<rparr>))))"

text \<open>
  \<^verbatim>\<open>runAnsiblePlaybook\<close> of \<^verbatim>\<open>src/cmd/runner/main.go\<close>: the standard output is captured,
  and each of the executor, the parser, the marshaller and the write of \<^verbatim>\<open>result.json\<close>
  returns its error at once.
\<close>

definition runAnsiblePlaybook_runner ::
  "path \<Rightarrow> run_env \<Rightarrow> Task \<Rightarrow> world \<Rightarrow> string option \<times> world" where
  "runAnsiblePlaybook_runner rootDir e task w =
     (let p = ansible e (pb_Path (Playbook task)) (inv_Path (Inventory task));
          buff = stdout p
      in case Execute (timeout RunnerMain) p of
           Some err \<Rightarrow> (Some (error_text e err), w)
         | None \<Rightarrow>
             (case ParseJSONResultsStream e buff of
                Inl m \<Rightarrow> (Some m, w)
              | Inr res \<Rightarrow>
                  (case MarshalIndent e res of
                     Inl m \<Rightarrow> (Some m, w)
                   | Inr raw \<Rightarrow>
                       (let resultPath = filepath_Join [rootDir, TaskID task, ''result.json''];
                            (werr, fs') = os_WriteFile (result_io e) resultPath raw (fs w)
                        in (werr, w\<lparr>fs := fs'\<rparr>)))))"

definition runAnsiblePlaybook ::
  "variant \<Rightarrow> path \<Rightarrow> run_env \<Rightarrow> Task \<Rightarrow> world \<Rightarrow> string option \<times> world" where
  "runAnsiblePlaybook v =
     (case v of Part000 \<Rightarrow> runAnsiblePlaybook_part000 | RunnerMain \<Rightarrow> runAnsiblePlaybook_runner)"

section \<open>The worker\<close>

text \<open>
  \<^verbatim>\<open>updateTask(task)\<close>: an update of the rows with the task's primary key from a struct
  that holds the status, the time and, in \<^verbatim>\<open>src/unnamed/part_000\<close> only, the error.
\<close>

definition updateTask :: "variant \<Rightarrow> string option \<Rightarrow> nat \<Rightarrow> Task \<Rightarrow> database \<Rightarrow> string + database" where
  "updateTask v err now task d =
     Updates err (\<lambda>r. ID r = ID task)
       (case v of
          Part000 \<Rightarrow> zero_Task\<lparr>Status := Status task, UpdatedAt := now, Error := Error task\<rparr>
        | RunnerMain \<Rightarrow> zero_Task\<lparr>Status := Status task, UpdatedAt := now\<rparr>)
       d"

text \<open>What one pass of the worker's loop meets: the errors of its three database
  calls, the clock at the two updates, and the run.\<close>

record serve_env =
  first_err :: "string option"
  mark_err :: "string option"
  mark_now :: nat
  run :: run_env
  final_err :: "string option"
  final_now :: nat

text \<open>
  The body of the loop of \<^verbatim>\<open>startRunAnsiblePlaybookService\<close> for one task identifier
  received from the channel. Each \<^verbatim>\<open>continue\<close> ends the pass.
\<close>

definition serve :: "variant \<Rightarrow> path \<Rightarrow> string \<Rightarrow> serve_env \<Rightarrow> world \<Rightarrow> world" where
  "serve v rootDir taskId e w =
     (case First (first_err e) taskId (db w) of
        Inl m \<Rightarrow> w\<lparr>logs := logs w @ [ErrTask taskId m]\<rparr>
      | Inr task \<Rightarrow>
          (case Updates (mark_err e) (\<lambda>r. TaskID r = taskId)
                  (zero_Task\<lparr>Status := 1, UpdatedAt := mark_now e\<rparr>) (db w) of
             Inl m \<Rightarrow> w\<lparr>logs := logs w @ [ErrTask taskId m]\<rparr>
           | Inr db1 \<Rightarrow>
               (let (err, w1) = runAnsiblePlaybook v rootDir (run e) task (w\<lparr>db := db1\<rparr>);
                    task' = (case err of
                               Some m \<Rightarrow> task\<lparr>Status := 3, Error := m\<rparr>
                             | None \<Rightarrow>
                                 (case v of
                                    Part000 \<Rightarrow> task\<lparr>Status := 2, Error := []\<rparr>
                                  | RunnerMain \<Rightarrow> task\<lparr>Status := 2\<rparr>))
                in case updateTask v (final_err e) (final_now e) task' (db w1) of
                     Inl m \<Rightarrow> w1\<lparr>logs := logs w1 @ [ErrUpdate task' m]\<rparr>
                   | Inr db2 \<Rightarrow> w1\<lparr>db := db2\<rparr>)))"

text \<open>
  \<^verbatim>\<open>startRunAnsiblePlaybookService(index, wait)\<close>: the loop over what this worker
  receives from the channel until the channel is closed, each identifier with what its
  pass meets. The deferred function prints that the service stopped.
\<close>

primrec startRunAnsiblePlaybookService ::
  "variant \<Rightarrow> path \<Rightarrow> nat \<Rightarrow> (string \<times> serve_env) list \<Rightarrow> world \<Rightarrow> world" where
  "startRunAnsiblePlaybookService v rootDir index [] w =
     w\<lparr>logs := logs w @ [ServiceStopped index]\<rparr>"
| "startRunAnsiblePlaybookService v rootDir index (x # rest) w =
     startRunAnsiblePlaybookService v rootDir index rest (serve v rootDir (fst x) (snd x) w)"

section \<open>Predicates and sample inputs\<close>

text \<open>
  The two writes of one pass of the worker, as relations between the task table before
  and after: the write at the dequeue may only set rows of the dequeued identifier to
  Running (1), the final write may only take a Running row to Succeeded (2) or Failed
  (3). Both keep the primary key and the task identifier of every row.
\<close>

definition marks_running :: "string \<Rightarrow> Task list \<Rightarrow> Task list \<Rightarrow> bool" where
  "marks_running taskId old new =
     list_all2 (\<lambda>r r'. ID r' = ID r \<and> TaskID r' = TaskID r \<and>
                  (Status r' = Status r \<or> (TaskID r = taskId \<and> Status r' = 1))) old new"

definition finishes :: "Task list \<Rightarrow> Task list \<Rightarrow> bool" where
  "finishes old new =
     list_all2 (\<lambda>r r'. ID r' = ID r \<and> TaskID r' = TaskID r \<and>
                  (Status r' = Status r \<or> (Status r = 1 \<and> (Status r' = 2 \<or> Status r' = 3)))) old new"

text \<open>Sample inputs: an operating system that lets every write through, an empty
  server, the spec's example form, and two environments of a creation request.\<close>

definition io_ok :: io_env where
  "io_ok = \<lparr>mkdir_ok = True, create_err = None, write_err = None\<rparr>"

definition empty_world :: world where
  "empty_world =
     \<lparr>db = \<lparr>users = [], inventories = [], playbooks = [], tasks = []\<rparr>,
      fs = \<lparr>files = Map.empty, dirs = {}\<rparr>,
      logs = []\<rparr>"

definition ping_form :: form where
  "ping_form =
     \<lparr>form_name = ''ping-test'',
      form_playbook = ''- name: ping'' @ [CR, NL] @ ''  ping:'',
      form_inventory = ''host1 ansible_host=10.0.0.5''\<rparr>"

definition create_ok :: create_env where
  "create_ok =
     \<lparr>new_uuid = ''u1'', playbook_io = io_ok, playbook_db_err = None, inventory_io = io_ok,
      inventory_db_err = None, task_db_err = None, create_now = 7\<rparr>"

definition create_inventory_fails :: create_env where
  "create_inventory_fails =
     create_ok\<lparr>inventory_io := io_ok\<lparr>create_err := Some ''permission denied''\<rparr>\<rparr>"

text \<open>
  The first database error the environment holds for a pass, and what it is for a log
  line to report an error for a task identifier.
\<close>

definition db_error_of :: "serve_env \<Rightarrow> string option" where
  "db_error_of e =
     (case first_err e of
        Some m \<Rightarrow> Some m
      | None \<Rightarrow> (case mark_err e of Some m \<Rightarrow> Some m | None \<Rightarrow> final_err e))"

definition reports :: "string \<Rightarrow> string \<Rightarrow> log_line \<Rightarrow> bool" where
  "reports taskId m l =
     (case l of
        ErrTask t m' \<Rightarrow> t = taskId \<and> m' = m
      | ErrUpdate t m' \<Rightarrow> TaskID t = taskId \<and> m' = m
      | _ \<Rightarrow> False)"

text \<open>
  A server that holds one pending task with its two files, the task as the worker
  loads it, three processes (one that ends well within every deadline, one that still
  runs after 31 minutes, one that exits with status 2), the libraries around a process,
  and passes of the worker: one that meets no error outside the process, one whose
  read of the captured output fails, one whose lookup meets a database error.
\<close>

definition demo_playbook :: Playbook where
  "demo_playbook =
     \<lparr>pb_ID = 1, pb_Name = ''ping-test'', pb_Path = ''/srv/data/u1/site.yaml'',
      pb_Creator = ''admin''\<rparr>"

definition demo_inventory :: Inventory where
  "demo_inventory =
     \<lparr>inv_ID = 1, inv_Name = ''ping-test'', inv_Path = ''/srv/data/u1/inventory.ini'',
      inv_Creator = ''admin''\<rparr>"

definition demo_row :: Task where
  "demo_row =
     zero_Task\<lparr>ID := 1, TaskID := ''u1'', Name := ''ping-test'', UpdatedAt := 7,
       PlaybookID := 1, InventoryID := 1, UserID := 1\<rparr>"

definition demo_world :: world where
  "demo_world =
     \<lparr>db = \<lparr>users = [], inventories = [demo_inventory], playbooks = [demo_playbook],
            tasks = [demo_row]\<rparr>,
      fs = \<lparr>files = [''/srv/data/u1/site.yaml'' \<mapsto> ''- hosts: servers'',
                      ''/srv/data/u1/inventory.ini'' \<mapsto> ''[servers]''],
            dirs = {''/srv/data/u1''}\<rparr>,
      logs = []\<rparr>"

definition demo_task :: Task where
  "demo_task = demo_row\<lparr>Playbook := demo_playbook, Inventory := demo_inventory\<rparr>"

definition good_process :: process where
  "good_process = \<lparr>duration = 2 * Minute, exit_code = 0, stdout = ''{}'', merged = ''{}''\<rparr>"

definition slow_process :: process where
  "slow_process = \<lparr>duration = 31 * Minute, exit_code = 0, stdout = ''{'', merged = ''{''\<rparr>"

definition failing_process :: process where
  "failing_process = \<lparr>duration = Minute, exit_code = 2, stdout = ''{}'', merged = ''{}''\<rparr>"

definition demo_lib :: "process \<Rightarrow> run_env" where
  "demo_lib p =
     \<lparr>ansible = (\<lambda>playbookPath inventoryPath. p),
      error_text = (\<lambda>x. case x of
                           DeadlineExceeded \<Rightarrow> ''context deadline exceeded''
                         | ExitError n \<Rightarrow> ''exit status''),
      ParseJSONResultsStream = (\<lambda>s. if s = ''{}'' then Inr s else Inl ''unexpected end of JSON input''),
      MarshalIndent = (\<lambda>r. Inr r),
      readall_err = None,
      result_io = io_ok\<rparr>"

definition pass :: "process \<Rightarrow> serve_env" where
  "pass p =
     \<lparr>first_err = None, mark_err = None, mark_now = 8, run = demo_lib p, final_err = None,
      final_now = 9\<rparr>"

definition pass_read_fails :: serve_env where
  "pass_read_fails = (pass good_process)\<lparr>run := (demo_lib good_process)\<lparr>readall_err := Some ''boom''\<rparr>\<rparr>"

definition pass_db_locked :: serve_env where
  "pass_db_locked = (pass good_process)\<lparr>first_err := Some ''database is locked''\<rparr>"

text \<open>The same server after a run of the task that failed and whose message was stored.\<close>

definition demo_failed_world :: world where
  "demo_failed_world =
     demo_world\<lparr>db := (db demo_world)\<lparr>tasks := [demo_row\<lparr>Status := 3, Error := ''exit status''\<rparr>]\<rparr>\<rparr>"

section \<open>Splitting and joining\<close>

lemma strings_Split_not_Nil: "strings_Split s c \<noteq> []"
  by (induction s) (auto split: list.splits)

lemma strings_Split_pieces: "list_all (\<lambda>l. c \<notin> set l \<and> set l \<subseteq> set s) (strings_Split s c)"
  by (induction s) (auto split: list.splits simp: list_all_iff)

lemma strings_Join_Cons: "strings_Join ((x # l) # ls) sep = x # strings_Join (l # ls) sep"
  by (cases ls) simp_all

lemma strings_Join_Split: "strings_Join (strings_Split s c) c = s"
proof (induction s)
  case Nil
  show ?case by simp
next
  case (Cons x xs)
  obtain l ls where sp: "strings_Split xs c = l # ls"
    using strings_Split_not_Nil [of xs c] by (cases "strings_Split xs c") auto
  show ?case
  proof (cases "x = c")
    case True
    then show ?thesis using Cons sp by simp
  next
    case False
    have "strings_Join ((x # l) # ls) c = x # strings_Join (l # ls) c"
      by (rule strings_Join_Cons)
    then show ?thesis using False Cons sp by simp
  qed
qed

lemma strings_ReplaceAll_empty: "strings_ReplaceAll s c [] = filter (\<lambda>x. x \<noteq> c) s"
  by (induction s) (auto simp: strings_ReplaceAll_def)

lemma fold_WriteString: "fold (\<lambda>l w. WriteString w (g l)) ls w = w @ concat (map g ls)"
  by (induction ls arbitrary: w) (auto simp: WriteString_def)

lemma playbook_buffer_eq:
  "playbook_buffer v content =
     playbook_skeleton v [] @
     concat (map (\<lambda>l. ''  '' @ l @ [NL]) (strings_Split (filter (\<lambda>x. x \<noteq> CR) content) NL))"
  unfolding playbook_buffer_def Let_def strings_ReplaceAll_empty
  by (rule fold_WriteString)

section \<open>The two files of a task\<close>

lemma writeFile_other: "q \<noteq> p \<Longrightarrow> files (snd (writeFile e p c fsys)) q = files fsys q"
  by (simp add: writeFile_def Let_def split: option.split prod.split)

lemma writeFile_ok:
  "mkdir_ok e \<Longrightarrow> create_err e = None \<Longrightarrow> write_err e = None \<Longrightarrow>
   fst (writeFile e p c fsys) = None \<and> files (snd (writeFile e p c fsys)) p = Some c"
  by (simp add: writeFile_def Let_def)

lemma site_not_inventory:
  "filepath_Join [r, u, ''site.yaml''] \<noteq> filepath_Join [r, u, ''inventory.ini'']"
  by simp

lemma Create_Playbook_ok:
  "Create_Playbook None row d =
     Inr (row\<lparr>pb_ID := next_ID (map pb_ID (playbooks d))\<rparr>,
          d\<lparr>playbooks := playbooks d @ [row\<lparr>pb_ID := next_ID (map pb_ID (playbooks d))\<rparr>]\<rparr>)"
  by (simp add: Create_Playbook_def Let_def)

lemma createTask_site_file:
  assumes "mkdir_ok (playbook_io e)" and "create_err (playbook_io e) = None"
    and "write_err (playbook_io e) = None"
  shows "files (fs (snd (createTask v rootDir e f c w)))
           (filepath_Join [rootDir, new_uuid e, ''site.yaml''])
         = Some (Buffer_String (playbook_buffer v (form_playbook f)))"
proof -
  define p where "p = filepath_Join [rootDir, new_uuid e, ''site.yaml'']"
  define q where "q = filepath_Join [rootDir, new_uuid e, ''inventory.ini'']"
  define c1 where "c1 = Buffer_String (playbook_buffer v (form_playbook f))"
  define c2 where
    "c2 = Buffer_String (inventory_buffer (playbook_buffer v (form_playbook f)) (form_inventory f))"
  have pq: "p \<noteq> q" unfolding p_def q_def by (rule site_not_inventory)
  obtain err1 fs1 where wf: "writeFile (playbook_io e) p c1 (fs w) = (err1, fs1)"
    by (cases "writeFile (playbook_io e) p c1 (fs w)")
  have e1: "err1 = None" and f1: "files fs1 p = Some c1"
    using writeFile_ok [OF assms, of p c1 "fs w"] wf by simp_all
  obtain err2 fs2 where wf2: "writeFile (inventory_io e) q c2 fs1 = (err2, fs2)"
    by (cases "writeFile (inventory_io e) q c2 fs1")
  have f2: "files fs2 p = Some c1"
    using writeFile_other [OF pq, of "inventory_io e" c2 fs1] wf2 f1 by simp
  have "files (fs (snd (createTask v rootDir e f c w))) p = Some c1"
    unfolding createTask_def Let_def p_def [symmetric] q_def [symmetric] c1_def [symmetric]
      c2_def [symmetric]
    using wf e1 f1 wf2 f2
    by (simp split: sum.split prod.split del: filepath_Join.simps)
  then show ?thesis unfolding p_def c1_def .
qed

text \<open>
  Claim C3. For every submitted playbook body, in both variants, the script file that
  a successful write leaves at \<^verbatim>\<open>site.yaml\<close> is the host-group header line (followed in
  \<^verbatim>\<open>src/cmd/runner/main.go\<close> by the \<^verbatim>\<open>gather_facts\<close> line), the task-list marker line, and
  then every line of the body without its carriage returns, each behind two more
  spaces and ended by a newline. The lines are those of the body: joined by newlines
  they give the body without its carriage returns, and none holds a newline or a
  carriage return.
\<close>

theorem playbook_script_materialized:
  assumes "mkdir_ok (playbook_io e)" and "create_err (playbook_io e) = None"
    and "write_err (playbook_io e) = None"
  shows "files (fs (snd (createTask v rootDir e f c w)))
           (filepath_Join [rootDir, new_uuid e, ''site.yaml'']) =
         Some ((case v of
                  Part000 \<Rightarrow> ''- hosts: servers'' @ [NL] @ ''  tasks:'' @ [NL]
                | RunnerMain \<Rightarrow>
                    ''- hosts: servers'' @ [NL] @ ''  gather_facts: false'' @ [NL] @
                    ''  tasks:'' @ [NL]) @
               concat (map (\<lambda>l. ''  '' @ l @ [NL])
                 (strings_Split (filter (\<lambda>x. x \<noteq> CR) (form_playbook f)) NL)))
       \<and> strings_Join (strings_Split (filter (\<lambda>x. x \<noteq> CR) (form_playbook f)) NL) NL =
           filter (\<lambda>x. x \<noteq> CR) (form_playbook f)
       \<and> list_all (\<lambda>l. NL \<notin> set l \<and> CR \<notin> set l)
           (strings_Split (filter (\<lambda>x. x \<noteq> CR) (form_playbook f)) NL)"
proof (intro conjI)
  have sk: "playbook_skeleton v [] =
      (case v of
         Part000 \<Rightarrow> ''- hosts: servers'' @ [NL] @ ''  tasks:'' @ [NL]
       | RunnerMain \<Rightarrow>
           ''- hosts: servers'' @ [NL] @ ''  gather_facts: false'' @ [NL] @ ''  tasks:'' @ [NL])"
    by (cases v) (simp_all add: playbook_skeleton_def WriteString_def)
  show "files (fs (snd (createTask v rootDir e f c w)))
           (filepath_Join [rootDir, new_uuid e, ''site.yaml'']) =
         Some ((case v of
                  Part000 \<Rightarrow> ''- hosts: servers'' @ [NL] @ ''  tasks:'' @ [NL]
                | RunnerMain \<Rightarrow>
                    ''- hosts: servers'' @ [NL] @ ''  gather_facts: false'' @ [NL] @
                    ''  tasks:'' @ [NL]) @
               concat (map (\<lambda>l. ''  '' @ l @ [NL])
                 (strings_Split (filter (\<lambda>x. x \<noteq> CR) (form_playbook f)) NL)))"
    unfolding createTask_site_file [OF assms] Buffer_String_def playbook_buffer_eq sk ..
  show "strings_Join (strings_Split (filter (\<lambda>x. x \<noteq> CR) (form_playbook f)) NL) NL =
           filter (\<lambda>x. x \<noteq> CR) (form_playbook f)"
    by (rule strings_Join_Split)
  have "list_all (\<lambda>l. NL \<notin> set l \<and> set l \<subseteq> set (filter (\<lambda>x. x \<noteq> CR) (form_playbook f)))
          (strings_Split (filter (\<lambda>x. x \<noteq> CR) (form_playbook f)) NL)"
    by (rule strings_Split_pieces)
  then show "list_all (\<lambda>l. NL \<notin> set l \<and> CR \<notin> set l)
           (strings_Split (filter (\<lambda>x. x \<noteq> CR) (form_playbook f)) NL)"
    by (rule list.pred_mono_strong) auto
qed

theorem playbook_script_materialized_witness:
  "mkdir_ok (playbook_io create_ok) \<and> create_err (playbook_io create_ok) = None
   \<and> write_err (playbook_io create_ok) = None
   \<and> files (fs (snd (createTask Part000 ''/srv/data'' create_ok ping_form new_Context empty_world)))
        ''/srv/data/u1/site.yaml'' =
      Some (''- hosts: servers'' @ [NL] @ ''  tasks:'' @ [NL] @ ''  - name: ping'' @ [NL] @
            ''    ping:'' @ [NL])"
  using playbook_script_materialized
    [of create_ok Part000 "''/srv/data''" ping_form new_Context empty_world]
  by (simp add: create_ok_def io_ok_def ping_form_def NL_def CR_def)

text \<open>
  Claim C4. For every submitted inventory body, in both variants, the inventory file
  that a successful write leaves at \<^verbatim>\<open>inventory.ini\<close> is exactly the line
  \<^verbatim>\<open>[servers]\<close> followed by the body as submitted; nothing of the playbook that the same
  buffer held before stays in it.
\<close>

theorem inventory_file_materialized:
  assumes "mkdir_ok (playbook_io e)" and "create_err (playbook_io e) = None"
    and "write_err (playbook_io e) = None" and "playbook_db_err e = None"
    and "mkdir_ok (inventory_io e)" and "create_err (inventory_io e) = None"
    and "write_err (inventory_io e) = None"
  shows "files (fs (snd (createTask v rootDir e f c w)))
           (filepath_Join [rootDir, new_uuid e, ''inventory.ini'']) =
         Some (''[servers]'' @ [NL] @ form_inventory f)"
proof -
  define p where "p = filepath_Join [rootDir, new_uuid e, ''site.yaml'']"
  define q where "q = filepath_Join [rootDir, new_uuid e, ''inventory.ini'']"
  define c1 where "c1 = Buffer_String (playbook_buffer v (form_playbook f))"
  define c2 where
    "c2 = Buffer_String (inventory_buffer (playbook_buffer v (form_playbook f)) (form_inventory f))"
  have c2: "c2 = ''[servers]'' @ [NL] @ form_inventory f"
    by (simp add: c2_def Buffer_String_def inventory_buffer_def WriteString_def Reset_def)
  obtain err1 fs1 where wf: "writeFile (playbook_io e) p c1 (fs w) = (err1, fs1)"
    by (cases "writeFile (playbook_io e) p c1 (fs w)")
  have e1: "err1 = None"
    using writeFile_ok [OF assms(1-3), of p c1 "fs w"] wf by simp
  obtain err2 fs2 where wf2: "writeFile (inventory_io e) q c2 fs1 = (err2, fs2)"
    by (cases "writeFile (inventory_io e) q c2 fs1")
  have e2: "err2 = None" and f2: "files fs2 q = Some c2"
    using writeFile_ok [OF assms(5-7), of q c2 fs1] wf2 by simp_all
  have "files (fs (snd (createTask v rootDir e f c w))) q = Some c2"
    unfolding createTask_def Let_def p_def [symmetric] q_def [symmetric] c1_def [symmetric]
      c2_def [symmetric]
    using wf e1 wf2 e2 f2 assms(4)
    by (simp add: Create_Playbook_ok split: sum.split prod.split del: filepath_Join.simps)
  then show ?thesis unfolding q_def c2 .
qed

theorem inventory_file_materialized_witness:
  "mkdir_ok (playbook_io create_ok) \<and> create_err (playbook_io create_ok) = None
   \<and> write_err (playbook_io create_ok) = None \<and> playbook_db_err create_ok = None
   \<and> mkdir_ok (inventory_io create_ok) \<and> create_err (inventory_io create_ok) = None
   \<and> write_err (inventory_io create_ok) = None
   \<and> files (fs (snd (createTask RunnerMain ''/srv/data'' create_ok ping_form new_Context empty_world)))
        ''/srv/data/u1/inventory.ini'' =
      Some (''[servers]'' @ [NL] @ ''host1 ansible_host=10.0.0.5'')"
  using inventory_file_materialized
    [of create_ok RunnerMain "''/srv/data''" ping_form new_Context empty_world]
  by (simp add: create_ok_def io_ok_def ping_form_def)

section \<open>A failed write during task creation\<close>

text \<open>A failed write of the playbook ends the request with status 400 and stores no row.\<close>

lemma createTask_playbook_write_fails:
  assumes "fst (writeFile (playbook_io e) (filepath_Join [rootDir, new_uuid e, ''site.yaml''])
                 (Buffer_String (playbook_buffer v (form_playbook f))) (fs w)) = Some m"
  shows "fst (createTask v rootDir e f c w) = AbortWithError 400 m c
       \<and> db (snd (createTask v rootDir e f c w)) = db w"
proof -
  define p where "p = filepath_Join [rootDir, new_uuid e, ''site.yaml'']"
  define c1 where "c1 = Buffer_String (playbook_buffer v (form_playbook f))"
  obtain err1 fs1 where wf: "writeFile (playbook_io e) p c1 (fs w) = (err1, fs1)"
    by (cases "writeFile (playbook_io e) p c1 (fs w)")
  have e1: "err1 = Some m" using assms wf unfolding p_def c1_def by simp
  show ?thesis
    unfolding createTask_def Let_def p_def [symmetric] c1_def [symmetric]
    using wf e1 by simp
qed

lemmas create_eval =
  createTask_def Let_def writeFile_def filepath_Dir_def Create_Playbook_def Create_Inventory_def
  Create_Task_def next_ID_def AbortWithError_def IndentedJSON_def new_Context_def
  create_inventory_fails_def create_ok_def io_ok_def ping_form_def empty_world_def zero_Task_def

text \<open>
  Claim C7, at the input where the code leaves it. The playbook is written, the
  inventory file cannot be opened for writing. In both variants the branch of that
  error has no \<^verbatim>\<open>return\<close>: the request is answered with status 400 and the error, and
  the function goes on to store the inventory row and the task row (pending, with its
  keys) and to render the task into the body, although no inventory file exists.
\<close>

theorem createTask_inventory_write_fails:
  "written (fst (createTask v ''/srv/data'' create_inventory_fails ping_form new_Context empty_world))
     = Some 400
   \<and> errors (fst (createTask v ''/srv/data'' create_inventory_fails ping_form new_Context empty_world))
     = [''permission denied'']
   \<and> map_option TaskID
       (body (fst (createTask v ''/srv/data'' create_inventory_fails ping_form new_Context empty_world)))
     = Some ''u1''
   \<and> files (fs (snd (createTask v ''/srv/data'' create_inventory_fails ping_form new_Context empty_world)))
       ''/srv/data/u1/inventory.ini'' = None
   \<and> map inv_Path
       (inventories (db (snd (createTask v ''/srv/data'' create_inventory_fails ping_form new_Context empty_world))))
     = [''/srv/data/u1/inventory.ini'']
   \<and> map (\<lambda>t. (ID t, TaskID t, Status t, PlaybookID t, InventoryID t))
       (tasks (db (snd (createTask v ''/srv/data'' create_inventory_fails ping_form new_Context empty_world))))
     = [(1, ''u1'', 0, 1, 1)]"
  by (simp add: create_eval)

section \<open>The status writes of one pass\<close>

lemma assign_nonzero_keys [simp]:
  "ID (assign_nonzero v r) = ID r"
  "TaskID v = [] \<Longrightarrow> TaskID (assign_nonzero v r) = TaskID r"
  "Status v \<noteq> 0 \<Longrightarrow> Status (assign_nonzero v r) = Status v"
  by (simp_all add: assign_nonzero_def)

lemma marks_running_refl: "marks_running taskId xs xs"
  by (simp add: marks_running_def list_all2_same)

lemma finishes_refl: "finishes xs xs"
  by (simp add: finishes_def list_all2_same)

lemma runAnsiblePlaybook_db: "db (snd (runAnsiblePlaybook v rootDir e task w)) = db w"
  by (cases v)
    (simp_all add: runAnsiblePlaybook_def runAnsiblePlaybook_part000_def
      runAnsiblePlaybook_runner_def Let_def split: option.split sum.split prod.split)

lemma least_ID_mem: "least_ID ts = Some t \<Longrightarrow> t \<in> set ts"
  by (induction ts arbitrary: t) (auto split: option.splits if_splits)

lemma First_found:
  assumes "First err taskId d = Inr t"
  shows "\<exists>r \<in> set (tasks d). TaskID r = taskId \<and> ID t = ID r \<and> TaskID t = taskId"
proof -
  from assms obtain r where r: "least_ID (filter (\<lambda>t. TaskID t = taskId) (tasks d)) = Some r"
    and t: "t = Preload d r"
    by (auto simp: First_def split: option.splits)
  from least_ID_mem [OF r] have "r \<in> set (tasks d)" "TaskID r = taskId" by auto
  moreover have "ID t = ID r" "TaskID t = TaskID r" by (simp_all add: t Preload_def)
  ultimately show ?thesis by auto
qed

lemma Updates_tasks:
  "Updates err cond v d = Inr d' \<Longrightarrow>
   tasks d' = map (\<lambda>r. if cond r then assign_nonzero v r else r) (tasks d)"
  by (auto simp: Updates_def split: option.splits)

lemma distinct_ID_eq:
  "distinct (map ID xs) \<Longrightarrow> x \<in> set xs \<Longrightarrow> y \<in> set xs \<Longrightarrow> ID x = ID y \<Longrightarrow> x = y"
  by (auto simp: distinct_map dest: inj_onD)

lemma marks_running_map:
  assumes "TaskID m = []" and "Status m = 1"
  shows "marks_running t xs (map (\<lambda>r. if TaskID r = t then assign_nonzero m r else r) xs)"
  unfolding marks_running_def list_all2_map2 list_all2_same
proof
  fix r assume "r \<in> set xs"
  show "ID (if TaskID r = t then assign_nonzero m r else r) = ID r \<and>
        TaskID (if TaskID r = t then assign_nonzero m r else r) = TaskID r \<and>
        (Status (if TaskID r = t then assign_nonzero m r else r) = Status r \<or>
         TaskID r = t \<and> Status (if TaskID r = t then assign_nonzero m r else r) = 1)"
    using assms by simp
qed

lemma finishes_map:
  assumes run: "\<And>r. r \<in> set xs \<Longrightarrow> ID r = k \<Longrightarrow> Status r = 1"
    and "Status f = 2 \<or> Status f = 3" and "TaskID f = []"
  shows "finishes xs (map (\<lambda>r. if ID r = k then assign_nonzero f r else r) xs)"
  unfolding finishes_def list_all2_map2 list_all2_same
proof
  fix r assume r: "r \<in> set xs"
  have nz: "Status f \<noteq> 0" using assms(2) by auto
  show "ID (if ID r = k then assign_nonzero f r else r) = ID r \<and>
        TaskID (if ID r = k then assign_nonzero f r else r) = TaskID r \<and>
        (Status (if ID r = k then assign_nonzero f r else r) = Status r \<or>
         Status r = 1 \<and>
         (Status (if ID r = k then assign_nonzero f r else r) = 2 \<or>
          Status (if ID r = k then assign_nonzero f r else r) = 3))"
  proof (cases "ID r = k")
    case True
    then show ?thesis using run [OF r True] assms(2,3) nz by simp
  next
    case False
    then show ?thesis by simp
  qed
qed

lemma serve_not_found:
  assumes "First (first_err e) taskId (db w) = Inl m"
  shows "serve v rootDir taskId e w = w\<lparr>logs := logs w @ [ErrTask taskId m]\<rparr>"
  unfolding serve_def by (simp only: assms sum.case)

lemma serve_mark_failed:
  assumes "First (first_err e) taskId (db w) = Inr task"
    and "Updates (mark_err e) (\<lambda>r. TaskID r = taskId)
           (zero_Task\<lparr>Status := 1, UpdatedAt := mark_now e\<rparr>) (db w) = Inl m"
  shows "serve v rootDir taskId e w = w\<lparr>logs := logs w @ [ErrTask taskId m]\<rparr>"
  unfolding serve_def by (simp only: assms sum.case)

lemma serve_marked:
  assumes "First (first_err e) taskId (db w) = Inr task"
    and "Updates (mark_err e) (\<lambda>r. TaskID r = taskId)
           (zero_Task\<lparr>Status := 1, UpdatedAt := mark_now e\<rparr>) (db w) = Inr db1"
    and "runAnsiblePlaybook v rootDir (run e) task (w\<lparr>db := db1\<rparr>) = (err, w1)"
    and "task' = (case err of
                    Some m \<Rightarrow> task\<lparr>Status := 3, Error := m\<rparr>
                  | None \<Rightarrow>
                      (case v of
                         Part000 \<Rightarrow> task\<lparr>Status := 2, Error := []\<rparr>
                       | RunnerMain \<Rightarrow> task\<lparr>Status := 2\<rparr>))"
  shows "serve v rootDir taskId e w =
          (case updateTask v (final_err e) (final_now e) task' (db w1) of
             Inl m \<Rightarrow> w1\<lparr>logs := logs w1 @ [ErrUpdate task' m]\<rparr>
           | Inr db2 \<Rightarrow> w1\<lparr>db := db2\<rparr>)"
  unfolding serve_def Let_def assms(4)
  by (simp only: assms(1-3) sum.case prod.case)

text \<open>
  Claim C5. One pass of the worker over one dequeued identifier makes at most two
  writes to the task table, in this order. The first, at the dequeue, changes the status
  of no row but those of the dequeued identifier, which it sets to Running (1). The
  second changes the status of no row but one that is Running, which it takes to
  Succeeded (2) or Failed (3). So no write takes a row back to Pending or Running other
  than the dequeue of a trigger for that very task, and the values written are 1, 2 and
  3. The primary keys of the table are distinct, as a primary key is.
\<close>

theorem status_moves_forward:
  assumes dist: "distinct (map ID (tasks (db w)))"
  shows "\<exists>mid. marks_running taskId (tasks (db w)) mid
           \<and> finishes mid (tasks (db (serve v rootDir taskId e w)))"
proof (cases "First (first_err e) taskId (db w)")
  case (Inl m)
  then have "db (serve v rootDir taskId e w) = db w"
    by (simp add: serve_def)
  then show ?thesis
    using marks_running_refl [of taskId "tasks (db w)"] finishes_refl [of "tasks (db w)"] by auto
next
  case found: (Inr task)
  define mark where "mark = zero_Task\<lparr>Status := 1, UpdatedAt := mark_now e\<rparr>"
  have mk: "TaskID mark = []" "Status mark = 1"
    by (simp_all add: mark_def zero_Task_def)
  show ?thesis
  proof (cases "Updates (mark_err e) (\<lambda>r. TaskID r = taskId) mark (db w)")
    case (Inl m)
    then have "serve v rootDir taskId e w = w\<lparr>logs := logs w @ [ErrTask taskId m]\<rparr>"
      unfolding mark_def by (rule serve_mark_failed [OF found])
    then have "db (serve v rootDir taskId e w) = db w"
      by simp
    then show ?thesis
      using marks_running_refl [of taskId "tasks (db w)"] finishes_refl [of "tasks (db w)"] by auto
  next
    case marked: (Inr db1)
    have t1: "tasks db1 =
        map (\<lambda>r. if TaskID r = taskId then assign_nonzero mark r else r) (tasks (db w))"
      by (rule Updates_tasks [OF marked])
    have mr: "marks_running taskId (tasks (db w)) (tasks db1)"
      unfolding t1 by (rule marks_running_map [OF mk])
    obtain err w1 where ran: "runAnsiblePlaybook v rootDir (run e) task (w\<lparr>db := db1\<rparr>) = (err, w1)"
      by (cases "runAnsiblePlaybook v rootDir (run e) task (w\<lparr>db := db1\<rparr>)")
    have dbw1: "db w1 = db1"
      using runAnsiblePlaybook_db [of v rootDir "run e" task "w\<lparr>db := db1\<rparr>"] ran by simp
    define task' where "task' =
      (case err of
         Some m \<Rightarrow> task\<lparr>Status := 3, Error := m\<rparr>
       | None \<Rightarrow>
           (case v of
              Part000 \<Rightarrow> task\<lparr>Status := 2, Error := []\<rparr>
            | RunnerMain \<Rightarrow> task\<lparr>Status := 2\<rparr>))"
    have st: "Status task' = 2 \<or> Status task' = 3" and id': "ID task' = ID task"
      by (auto simp: task'_def split: option.splits variant.splits)
    have sv: "serve v rootDir taskId e w =
        (case updateTask v (final_err e) (final_now e) task' (db w1) of
           Inl m \<Rightarrow> w1\<lparr>logs := logs w1 @ [ErrUpdate task' m]\<rparr>
         | Inr db2 \<Rightarrow> w1\<lparr>db := db2\<rparr>)"
      by (rule serve_marked [OF found marked [unfolded mark_def] ran task'_def])
    show ?thesis
    proof (cases "updateTask v (final_err e) (final_now e) task' (db w1)")
      case (Inl m)
      then have "tasks (db (serve v rootDir taskId e w)) = tasks db1"
        using sv dbw1 by simp
      then show ?thesis using mr finishes_refl [of "tasks db1"] by auto
    next
      case (Inr db2)
      define fin where "fin =
        (case v of
           Part000 \<Rightarrow> zero_Task\<lparr>Status := Status task', UpdatedAt := final_now e, Error := Error task'\<rparr>
         | RunnerMain \<Rightarrow> zero_Task\<lparr>Status := Status task', UpdatedAt := final_now e\<rparr>)"
      have fn: "TaskID fin = []" "Status fin = Status task'"
        by (simp_all add: fin_def zero_Task_def split: variant.split)
      have "Updates (final_err e) (\<lambda>r. ID r = ID task') fin db1 = Inr db2"
        using Inr dbw1 by (simp add: updateTask_def fin_def)
      then have t2: "tasks db2 =
          map (\<lambda>r. if ID r = ID task then assign_nonzero fin r else r) (tasks db1)"
        unfolding id' by (rule Updates_tasks)
      obtain rf where rf: "rf \<in> set (tasks (db w))" "TaskID rf = taskId" "ID task = ID rf"
        using First_found [OF found] by auto
      have running: "Status r = 1" if "r \<in> set (tasks db1)" and "ID r = ID task" for r
      proof -
        from that(1) obtain r0 where r0: "r0 \<in> set (tasks (db w))"
          and r: "r = (if TaskID r0 = taskId then assign_nonzero mark r0 else r0)"
          unfolding t1 by auto
        have a: "ID r = ID r0" using r by simp
        have "ID r0 = ID rf"
          by (rule trans [OF sym [OF a] trans [OF that(2) rf(3)]])
        then have "r0 = rf"
          by (rule distinct_ID_eq [OF dist r0 rf(1)])
        then show ?thesis using r rf(2) mk by simp
      qed
      have "finishes (tasks db1) (tasks db2)"
        unfolding t2 by (rule finishes_map [OF running]) (simp_all add: fn st)
      moreover have "tasks (db (serve v rootDir taskId e w)) = tasks db2"
        using sv Inr by simp
      ultimately show ?thesis using mr by auto
    qed
  qed
qed

section \<open>Primary keys stay distinct\<close>

lemma fold_max_bound: "(a::nat) \<le> fold max ids a \<and> (\<forall>x \<in> set ids. x \<le> fold max ids a)"
proof (induction ids arbitrary: a)
  case Nil
  show ?case by simp
next
  case (Cons i ids)
  have "max i a \<le> fold max ids (max i a)" and "\<forall>x \<in> set ids. x \<le> fold max ids (max i a)"
    using Cons [of "max i a"] by simp_all
  then show ?case by auto
qed

lemma next_ID_fresh: "next_ID ids \<notin> set ids"
proof
  assume "next_ID ids \<in> set ids"
  then have "next_ID ids \<le> fold max ids 0" using fold_max_bound [of 0 ids] by blast
  then show False by (simp add: next_ID_def)
qed

lemma Create_Task_keeps_keys_distinct:
  assumes "Create_Task err now row d = Inr (row', d')" and "distinct (map ID (tasks d))"
  shows "distinct (map ID (tasks d')) \<and> Status row' = Status row
       \<and> take (length (tasks d)) (tasks d') = tasks d"
proof -
  have "err = None" using assms(1) by (cases err) (simp_all add: Create_Task_def)
  then show ?thesis
    using assms next_ID_fresh [of "map ID (tasks d)"]
    by (auto simp: Create_Task_def Let_def)
qed

lemma serve_keeps_keys:
  "map ID (tasks (db (serve v rootDir taskId e w))) = map ID (tasks (db w))"
proof (cases "First (first_err e) taskId (db w)")
  case (Inl m)
  show ?thesis unfolding serve_not_found [OF Inl] by simp
next
  case found: (Inr task)
  show ?thesis
  proof (cases "Updates (mark_err e) (\<lambda>r. TaskID r = taskId)
                  (zero_Task\<lparr>Status := 1, UpdatedAt := mark_now e\<rparr>) (db w)")
    case (Inl m)
    show ?thesis unfolding serve_mark_failed [OF found Inl] by simp
  next
    case marked: (Inr db1)
    have k1: "map ID (tasks db1) = map ID (tasks (db w))"
      unfolding Updates_tasks [OF marked] by (simp add: comp_def)
    obtain err w1 where ran: "runAnsiblePlaybook v rootDir (run e) task (w\<lparr>db := db1\<rparr>) = (err, w1)"
      by (cases "runAnsiblePlaybook v rootDir (run e) task (w\<lparr>db := db1\<rparr>)")
    have dbw1: "db w1 = db1"
      using runAnsiblePlaybook_db [of v rootDir "run e" task "w\<lparr>db := db1\<rparr>"] ran by simp
    define task' where "task' =
      (case err of
         Some m \<Rightarrow> task\<lparr>Status := 3, Error := m\<rparr>
       | None \<Rightarrow>
           (case v of
              Part000 \<Rightarrow> task\<lparr>Status := 2, Error := []\<rparr>
            | RunnerMain \<Rightarrow> task\<lparr>Status := 2\<rparr>))"
    show ?thesis
    proof (cases "updateTask v (final_err e) (final_now e) task' (db w1)")
      case (Inl m)
      show ?thesis
        unfolding serve_marked [OF found marked ran task'_def] Inl using k1 dbw1 by simp
    next
      case (Inr db2)
      have "map ID (tasks db2) = map ID (tasks db1)"
        using Inr dbw1 unfolding updateTask_def
        by (auto dest!: Updates_tasks simp: comp_def)
      then show ?thesis
        unfolding serve_marked [OF found marked ran task'_def] Inr using k1 by simp
    qed
  qed
qed

section \<open>The loop of the worker\<close>

lemma runAnsiblePlaybook_logs:
  "\<exists>ls. logs (snd (runAnsiblePlaybook v rootDir e task w)) = logs w @ ls
        \<and> ServiceStopped i \<notin> set ls"
proof (cases v)
  case Part000
  show ?thesis
    unfolding Part000 runAnsiblePlaybook_def runAnsiblePlaybook_part000_def Let_def
    by (simp split: option.split prod.split)
next
  case RunnerMain
  show ?thesis
    unfolding RunnerMain runAnsiblePlaybook_def runAnsiblePlaybook_runner_def Let_def
    by (simp split: option.split sum.split prod.split)
qed

lemma First_env_error: "First (Some m) taskId d = Inl m"
  by (simp add: First_def)

lemma First_Inr_no_error: "First err taskId d = Inr t \<Longrightarrow> err = None"
  by (cases err) (simp_all add: First_def)

lemma First_Inl_cases:
  "First err taskId d = Inl m \<Longrightarrow> err = Some m \<or> (err = None \<and> m = ''record not found'')"
  by (cases err) (auto simp: First_def split: option.splits)

lemma Updates_Inl: "Updates err cond v d = Inl m \<Longrightarrow> err = Some m"
  by (cases err) (simp_all add: Updates_def)

lemma Updates_Inr: "Updates err cond v d = Inr d' \<Longrightarrow> err = None"
  by (cases err) (simp_all add: Updates_def)

lemma updateTask_error: "updateTask v (Some m) now task d = Inl m"
  by (simp add: updateTask_def Updates_def)

lemma serve_logs:
  "\<exists>ls. logs (serve v rootDir taskId e w) = logs w @ ls \<and> ServiceStopped i \<notin> set ls"
proof (cases "First (first_err e) taskId (db w)")
  case (Inl m)
  show ?thesis unfolding serve_not_found [OF Inl] by simp
next
  case found: (Inr task)
  show ?thesis
  proof (cases "Updates (mark_err e) (\<lambda>r. TaskID r = taskId)
                  (zero_Task\<lparr>Status := 1, UpdatedAt := mark_now e\<rparr>) (db w)")
    case (Inl m)
    show ?thesis unfolding serve_mark_failed [OF found Inl] by simp
  next
    case marked: (Inr db1)
    obtain err w1 where ran: "runAnsiblePlaybook v rootDir (run e) task (w\<lparr>db := db1\<rparr>) = (err, w1)"
      by (cases "runAnsiblePlaybook v rootDir (run e) task (w\<lparr>db := db1\<rparr>)")
    obtain ls where ls: "logs w1 = logs w @ ls" "ServiceStopped i \<notin> set ls"
      using runAnsiblePlaybook_logs [of v rootDir "run e" task "w\<lparr>db := db1\<rparr>" i] ran by auto
    show ?thesis
      unfolding serve_marked [OF found marked ran refl]
      using ls by (cases "updateTask v (final_err e) (final_now e)
              (case err of
                 Some m \<Rightarrow> task\<lparr>Status := 3, Error := m\<rparr>
               | None \<Rightarrow>
                   (case v of
                      Part000 \<Rightarrow> task\<lparr>Status := 2, Error := []\<rparr>
                    | RunnerMain \<Rightarrow> task\<lparr>Status := 2\<rparr>)) (db w1)") simp_all
  qed
qed

lemma serve_reports:
  assumes "db_error_of e = Some m"
  shows "list_ex (\<lambda>l. reports taskId m l \<or> reports taskId ''record not found'' l)
           (logs (serve v rootDir taskId e w))"
proof (cases "First (first_err e) taskId (db w)")
  case (Inl m')
  have "m' = m \<or> m' = ''record not found''"
    using First_Inl_cases [OF Inl] assms by (auto simp: db_error_of_def)
  then show ?thesis
    unfolding serve_not_found [OF Inl] by (auto simp: reports_def)
next
  case found: (Inr task)
  have fe: "first_err e = None" by (rule First_Inr_no_error [OF found])
  show ?thesis
  proof (cases "Updates (mark_err e) (\<lambda>r. TaskID r = taskId)
                  (zero_Task\<lparr>Status := 1, UpdatedAt := mark_now e\<rparr>) (db w)")
    case (Inl m')
    have "m' = m" using Updates_Inl [OF Inl] assms fe by (simp add: db_error_of_def)
    then show ?thesis
      unfolding serve_mark_failed [OF found Inl] by (simp add: reports_def)
  next
    case marked: (Inr db1)
    have fin: "final_err e = Some m"
      using Updates_Inr [OF marked] assms fe by (simp add: db_error_of_def)
    obtain err w1 where ran: "runAnsiblePlaybook v rootDir (run e) task (w\<lparr>db := db1\<rparr>) = (err, w1)"
      by (cases "runAnsiblePlaybook v rootDir (run e) task (w\<lparr>db := db1\<rparr>)")
    define task' where "task' =
      (case err of
         Some m \<Rightarrow> task\<lparr>Status := 3, Error := m\<rparr>
       | None \<Rightarrow>
           (case v of
              Part000 \<Rightarrow> task\<lparr>Status := 2, Error := []\<rparr>
            | RunnerMain \<Rightarrow> task\<lparr>Status := 2\<rparr>))"
    have tid: "TaskID task' = taskId"
      using First_found [OF found] by (auto simp: task'_def split: option.splits variant.splits)
    have "serve v rootDir taskId e w = w1\<lparr>logs := logs w1 @ [ErrUpdate task' m]\<rparr>"
      unfolding serve_marked [OF found marked ran task'_def] fin updateTask_error by simp
    then show ?thesis using tid by (simp add: reports_def)
  qed
qed

lemma service_logs:
  "\<exists>ls. logs (startRunAnsiblePlaybookService v rootDir i queue w) =
          logs w @ ls @ [ServiceStopped i]
        \<and> ServiceStopped i \<notin> set ls"
proof (induction queue arbitrary: w)
  case Nil
  show ?case by simp
next
  case (Cons x rest)
  obtain l1 where l1: "logs (serve v rootDir (fst x) (snd x) w) = logs w @ l1"
    "ServiceStopped i \<notin> set l1"
    using serve_logs [of v rootDir "fst x" "snd x" w i] by auto
  obtain l2 where l2:
    "logs (startRunAnsiblePlaybookService v rootDir i rest (serve v rootDir (fst x) (snd x) w)) =
       logs (serve v rootDir (fst x) (snd x) w) @ l2 @ [ServiceStopped i]"
    "ServiceStopped i \<notin> set l2"
    using Cons [of "serve v rootDir (fst x) (snd x) w"] by auto
  have "logs (startRunAnsiblePlaybookService v rootDir i (x # rest) w) =
          logs w @ (l1 @ l2) @ [ServiceStopped i]"
    using l1(1) l2(1) by simp
  moreover have "ServiceStopped i \<notin> set (l1 @ l2)"
    using l1(2) l2(2) by simp
  ultimately show ?case by blast
qed

lemma service_keeps_logs:
  assumes "list_ex P (logs w)"
  shows "list_ex P (logs (startRunAnsiblePlaybookService v rootDir i queue w))"
proof -
  obtain ls where "logs (startRunAnsiblePlaybookService v rootDir i queue w) =
      logs w @ ls @ [ServiceStopped i]"
    using service_logs [of v rootDir i queue w] by auto
  then show ?thesis using assms by (auto simp: list_ex_iff)
qed

text \<open>
  Claim C8. Whatever the worker receives before the channel is closed, and whatever
  the other passes meet: a pass whose lookup, whose update to Running or whose final
  update meets a database error leaves a line in the log that names its task
  identifier and that error (or the record-not-found error of its lookup, which comes
  first when the task does not exist), and the loop goes on: the line that the service
  stopped is the last line of the log and occurs nowhere before, so the worker stops
  only when the channel is closed, after every identifier it received.
\<close>

theorem worker_survives_database_errors:
  assumes "(taskId, e) \<in> set queue" and "db_error_of e = Some m"
  shows "list_ex (\<lambda>l. reports taskId m l \<or> reports taskId ''record not found'' l)
           (logs (startRunAnsiblePlaybookService v rootDir i queue w))
       \<and> (\<exists>ls. logs (startRunAnsiblePlaybookService v rootDir i queue w) =
                  logs w @ ls @ [ServiceStopped i]
                \<and> ServiceStopped i \<notin> set ls)"
proof
  show "list_ex (\<lambda>l. reports taskId m l \<or> reports taskId ''record not found'' l)
           (logs (startRunAnsiblePlaybookService v rootDir i queue w))"
    using assms(1)
  proof (induction queue arbitrary: w)
    case Nil
    then show ?case by simp
  next
    case (Cons x rest)
    show ?case
    proof (cases "x = (taskId, e)")
      case True
      have "list_ex (\<lambda>l. reports taskId m l \<or> reports taskId ''record not found'' l)
              (logs (serve v rootDir taskId e w))"
        by (rule serve_reports [OF assms(2)])
      then have "list_ex (\<lambda>l. reports taskId m l \<or> reports taskId ''record not found'' l)
              (logs (startRunAnsiblePlaybookService v rootDir i rest (serve v rootDir taskId e w)))"
        by (rule service_keeps_logs)
      then show ?thesis using True by simp
    next
      case False
      then have "(taskId, e) \<in> set rest" using Cons.prems by simp
      then have "list_ex (\<lambda>l. reports taskId m l \<or> reports taskId ''record not found'' l)
              (logs (startRunAnsiblePlaybookService v rootDir i rest
                 (serve v rootDir (fst x) (snd x) w)))"
        by (rule Cons.IH)
      then show ?thesis by simp
    qed
  qed
  show "\<exists>ls. logs (startRunAnsiblePlaybookService v rootDir i queue w) =
                  logs w @ ls @ [ServiceStopped i]
                \<and> ServiceStopped i \<notin> set ls"
    by (rule service_logs)
qed

section \<open>The passes of the worker on the sample inputs\<close>

lemmas demo_eval =
  demo_world_def demo_row_def demo_playbook_def demo_inventory_def demo_task_def zero_Task_def
  zero_Playbook_def zero_Inventory_def zero_User_def good_process_def slow_process_def
  failing_process_def demo_lib_def pass_def pass_read_fails_def pass_db_locked_def io_ok_def
  Minute_def timeout_def

lemmas worker_eval =
  serve_def First_def Preload_def Updates_def assign_nonzero_def updateTask_def
  runAnsiblePlaybook_def runAnsiblePlaybook_part000_def runAnsiblePlaybook_runner_def
  Execute_def os_WriteFile_def filepath_Dir_def Let_def

lemma demo_First: "First None ''u1'' (db demo_world) = Inr demo_task"
  by (simp add: demo_eval First_def Preload_def)

lemma timeout_range: "10 * Minute \<le> timeout v \<and> timeout v \<le> 55 * Minute"
  by (cases v) (simp_all add: timeout_def)

lemma runner_main_process_failure:
  assumes "Execute (timeout RunnerMain)
             (ansible e (pb_Path (Playbook task)) (inv_Path (Inventory task))) = Some err"
  shows "runAnsiblePlaybook RunnerMain rootDir e task w = (Some (error_text e err), w)"
  unfolding runAnsiblePlaybook_def runAnsiblePlaybook_runner_def Let_def
  by (simp add: assms)

lemma runner_main_timeout_fails:
  assumes "timeout RunnerMain <
             duration (ansible e (pb_Path (Playbook task)) (inv_Path (Inventory task)))"
  shows "runAnsiblePlaybook RunnerMain rootDir e task w = (Some (error_text e DeadlineExceeded), w)"
  by (rule runner_main_process_failure) (simp add: Execute_def assms)

lemma runner_main_malformed_output:
  assumes "Execute (timeout RunnerMain)
             (ansible e (pb_Path (Playbook task)) (inv_Path (Inventory task))) = None"
    and "ParseJSONResultsStream e
           (stdout (ansible e (pb_Path (Playbook task)) (inv_Path (Inventory task)))) = Inl m"
  shows "runAnsiblePlaybook RunnerMain rootDir e task w = (Some m, w)"
  unfolding runAnsiblePlaybook_def runAnsiblePlaybook_runner_def Let_def
  by (simp add: assms)

lemma part000_run_error_only_from_read:
  assumes "readall_err e = None"
  shows "fst (runAnsiblePlaybook Part000 rootDir e task w) = None"
  unfolding runAnsiblePlaybook_def runAnsiblePlaybook_part000_def Let_def
  by (simp add: assms split: prod.split)

lemma updateTask_frame:
  assumes "updateTask v err now task d = Inr d'"
  shows "users d' = users d \<and> inventories d' = inventories d \<and> playbooks d' = playbooks d
       \<and> list_all2 (\<lambda>r r'. ID r' = ID r \<and> TaskID r' = TaskID r \<and> Name r' = Name r \<and>
                      PlaybookID r' = PlaybookID r \<and> InventoryID r' = InventoryID r \<and>
                      UserID r' = UserID r)
           (tasks d) (tasks d')"
proof -
  have "err = None" using assms by (cases err) (simp_all add: updateTask_def Updates_def)
  then show ?thesis
    using assms
    by (cases v)
      (auto simp: updateTask_def Updates_def assign_nonzero_def zero_Task_def list_all2_map2
        list_all2_same)
qed

lemma part000_updateTask_stores_error:
  assumes "updateTask Part000 err now task d = Inr d'" and "Error task \<noteq> []"
    and "r' \<in> set (tasks d')" and "ID r' = ID task"
  shows "Error r' = Error task \<and> Status r' = (if Status task = 0 then Status r' else Status task)"
proof -
  have "err = None" using assms(1) by (cases err) (simp_all add: updateTask_def Updates_def)
  then show ?thesis
    using assms
    by (auto simp: updateTask_def Updates_def assign_nonzero_def zero_Task_def)
qed

theorem status_moves_forward_witness:
  "distinct (map ID (tasks (db demo_world)))
   \<and> (\<exists>mid. marks_running ''u1'' (tasks (db demo_world)) mid
          \<and> finishes mid
               (tasks (db (serve RunnerMain ''/srv/data'' ''u1'' (pass good_process) demo_world))))
   \<and> map Status (tasks (db demo_world)) = [0]
   \<and> map Status
        (tasks (db (serve RunnerMain ''/srv/data'' ''u1'' (pass good_process) demo_world))) = [2]"
proof -
  have d: "distinct (map ID (tasks (db demo_world)))"
    by (simp add: demo_world_def)
  have s0: "map Status (tasks (db demo_world)) = [0]"
    by (simp add: demo_eval)
  have s2: "map Status
      (tasks (db (serve RunnerMain ''/srv/data'' ''u1'' (pass good_process) demo_world))) = [2]"
    by (simp add: demo_eval worker_eval)
  show ?thesis
    using d s0 s2
      status_moves_forward [OF d, of "''u1''" RunnerMain "''/srv/data''" "pass good_process"]
    by blast
qed

theorem worker_survives_database_errors_witness:
  "(''u1'', pass_db_locked) \<in> set [(''u1'', pass_db_locked), (''u1'', pass good_process)]
   \<and> db_error_of pass_db_locked = Some ''database is locked''
   \<and> list_ex (\<lambda>l. reports ''u1'' ''database is locked'' l \<or> reports ''u1'' ''record not found'' l)
       (logs (startRunAnsiblePlaybookService RunnerMain ''/srv/data'' 0
          [(''u1'', pass_db_locked), (''u1'', pass good_process)] demo_world))
   \<and> (\<exists>ls. logs (startRunAnsiblePlaybookService RunnerMain ''/srv/data'' 0
               [(''u1'', pass_db_locked), (''u1'', pass good_process)] demo_world) =
             logs demo_world @ ls @ [ServiceStopped 0]
           \<and> ServiceStopped 0 \<notin> set ls)
   \<and> map Status
       (tasks (db (startRunAnsiblePlaybookService RunnerMain ''/srv/data'' 0
          [(''u1'', pass_db_locked), (''u1'', pass good_process)] demo_world))) = [2]"
proof -
  have a: "(''u1'', pass_db_locked) \<in> set [(''u1'', pass_db_locked), (''u1'', pass good_process)]"
    by simp
  have b: "db_error_of pass_db_locked = Some ''database is locked''"
    by (simp add: db_error_of_def pass_db_locked_def)
  have c: "map Status
       (tasks (db (startRunAnsiblePlaybookService RunnerMain ''/srv/data'' 0
          [(''u1'', pass_db_locked), (''u1'', pass good_process)] demo_world))) = [2]"
    by (simp add: demo_eval worker_eval)
  show ?thesis
    using a b c
      worker_survives_database_errors [OF a b, of RunnerMain "''/srv/data''" 0 demo_world]
    by blast
qed

text \<open>
  Claim C1, at the input where the code leaves it. The process still runs when the
  deadline of 30 minutes of \<^verbatim>\<open>src/unnamed/part_000\<close> passes, so the executor returns the
  deadline error. That variant prints the error and returns no error to the worker,
  and the pass ends with the task stored as Succeeded (2) with no error message.
  (\<^verbatim>\<open>src/cmd/runner/main.go\<close> returns the error and stores Failed (3): see
  \<open>runner_main_timeout_fails\<close> and \<open>runner_main_timeout_ends_failed\<close>.)
\<close>

theorem part000_timeout_ends_succeeded:
  "timeout Part000 < duration slow_process
   \<and> Execute (timeout Part000) slow_process = Some DeadlineExceeded
   \<and> map (\<lambda>t. (TaskID t, Status t, Error t))
       (tasks (db (serve Part000 ''/srv/data'' ''u1'' (pass slow_process) demo_world)))
     = [(''u1'', 2, [])]
   \<and> logs (serve Part000 ''/srv/data'' ''u1'' (pass slow_process) demo_world)
     = [CmdLine ''u1'', FailedExec ''u1'' ''context deadline exceeded'']"
  by (simp add: demo_eval worker_eval)

lemma runner_main_timeout_ends_failed:
  "map (\<lambda>t. (TaskID t, Status t, Error t))
       (tasks (db (serve RunnerMain ''/srv/data'' ''u1'' (pass slow_process) demo_world)))
     = [(''u1'', 3, [])]
   \<and> files (fs (serve RunnerMain ''/srv/data'' ''u1'' (pass slow_process) demo_world))
       ''/srv/data/u1/result.json'' = None"
  by (simp add: demo_eval worker_eval)

text \<open>
  Claim C2, at the input where the code leaves it. The process exits with status 2.
  \<^verbatim>\<open>runAnsiblePlaybook\<close> of \<^verbatim>\<open>src/unnamed/part_000\<close> returns no error and writes the
  captured output to \<^verbatim>\<open>result.json\<close>, which did not exist before.
  (\<^verbatim>\<open>src/cmd/runner/main.go\<close> returns the error and writes nothing: see
  \<open>runner_main_process_failure\<close> and \<open>runner_main_malformed_output\<close>.)
\<close>

theorem part000_failed_process_writes_result:
  "Execute (timeout Part000) failing_process = Some (ExitError 2)
   \<and> fst (runAnsiblePlaybook Part000 ''/srv/data'' (demo_lib failing_process) demo_task demo_world)
     = None
   \<and> files (fs demo_world) ''/srv/data/u1/result.json'' = None
   \<and> files (fs (snd (runAnsiblePlaybook Part000 ''/srv/data'' (demo_lib failing_process) demo_task
         demo_world))) ''/srv/data/u1/result.json'' = Some ''{}''"
  by (simp add: demo_eval worker_eval)

text \<open>
  Claim C6, at the input where the code leaves it. The process exits with status 2
  and \<^verbatim>\<open>runAnsiblePlaybook\<close> of \<^verbatim>\<open>src/cmd/runner/main.go\<close> returns the error; the worker
  puts it on its task, but \<^verbatim>\<open>updateTask\<close> of that variant leaves the error out of the
  update, and the stored row is Failed (3) with an empty error message.
  (\<^verbatim>\<open>src/unnamed/part_000\<close> stores the message, and both variants leave the other columns
  as they are: see \<open>part000_updateTask_stores_error\<close> and \<open>updateTask_frame\<close>.)
\<close>

theorem runner_main_drops_error_message:
  "fst (runAnsiblePlaybook RunnerMain ''/srv/data'' (demo_lib failing_process) demo_task demo_world)
     = Some ''exit status''
   \<and> map (\<lambda>t. (TaskID t, Status t, Error t))
       (tasks (db (serve RunnerMain ''/srv/data'' ''u1'' (pass failing_process) demo_world)))
     = [(''u1'', 3, [])]"
  by (simp add: demo_eval worker_eval)

text \<open>
  Claim C10, at the input where the code leaves it. In \<^verbatim>\<open>src/unnamed/part_000\<close> a
  first run of the task fails (the read of the captured output fails) and stores Failed
  (3) with its message. A second run of the same task succeeds; the worker sets the
  error of its task to the empty string, and the update built from a struct leaves an
  empty string out, so the stored row is Succeeded (2) and still carries the message of
  the first run. The same happens from any stored row that is Failed with a message.
\<close>

theorem part000_stale_error_after_success:
  "map (\<lambda>t. (TaskID t, Status t, Error t))
       (tasks (db (serve Part000 ''/srv/data'' ''u1'' pass_read_fails demo_world)))
     = [(''u1'', 3, ''failed to read result: boom'')]
   \<and> map (\<lambda>t. (TaskID t, Status t, Error t))
       (tasks (db (startRunAnsiblePlaybookService Part000 ''/srv/data'' 0
          [(''u1'', pass_read_fails), (''u1'', pass good_process)] demo_world)))
     = [(''u1'', 2, ''failed to read result: boom'')]
   \<and> map (\<lambda>t. (TaskID t, Status t, Error t)) (tasks (db demo_failed_world))
     = [(''u1'', 3, ''exit status'')]
   \<and> map (\<lambda>t. (TaskID t, Status t, Error t))
       (tasks (db (serve Part000 ''/srv/data'' ''u1'' (pass good_process) demo_failed_world)))
     = [(''u1'', 2, ''exit status'')]"
  by (simp add: demo_failed_world_def demo_eval worker_eval)

end
